theory Spec2Isabelle
  imports Complex_Main
begin

section \<open>Python values\<close>

text \<open>
  The two adapter modules \<^verbatim>\<open>intelligent_rag_pipe.py\<close> (called variant A below) and
  \<^verbatim>\<open>openwebui_pipe.py\<close> (variant B) handle chat messages, JSON replies and status
  events, all of which are plain Python values built from \<^verbatim>\<open>None\<close>, booleans, integers,
  strings, lists and dicts with string keys. A dict is an association list in insertion
  order; its keys are distinct in Python, and a lookup takes the first entry.
  Floating-point numbers inside a JSON reply are not modelled.
  A character of the model stands for a code point below 256.
\<close>

datatype pyval =
    PNone
  | PBool bool
  | PInt int
  | PStr string
  | PList "pyval list"
  | PDict "(string \<times> pyval) list"

type_synonym pydict = "(string \<times> pyval) list"

text \<open>Truth value of an object, as \<^verbatim>\<open>if x:\<close> tests it.\<close>

fun truthy :: "pyval \<Rightarrow> bool" where
  "truthy PNone = False"
| "truthy (PBool b) = b"
| "truthy (PInt i) = (i \<noteq> 0)"
| "truthy (PStr s) = (s \<noteq> [])"
| "truthy (PList xs) = (xs \<noteq> [])"
| "truthy (PDict d) = (d \<noteq> [])"

text \<open>\<^verbatim>\<open>d.get(k)\<close> is \<^verbatim>\<open>None\<close> for a missing key, \<^verbatim>\<open>d.get(k, default)\<close> the default.\<close>

definition dict_get :: "pydict \<Rightarrow> string \<Rightarrow> pyval \<Rightarrow> pyval" where
  "dict_get d k dflt = (case map_of d k of None \<Rightarrow> dflt | Some v \<Rightarrow> v)"

section \<open>Configuration, event sink and adapter state\<close>

text \<open>The \<^verbatim>\<open>Valves\<close> class of both modules has the same five fields.\<close>

record valves =
  server_url :: string
  project_id :: string
  thinking_depth :: int
  emit_interval :: real
  enable_status_indicator :: bool

text \<open>
  The event sink \<^verbatim>\<open>__event_emitter__\<close> is either \<^verbatim>\<open>None\<close> or a function object. Of the
  function object the code reads only \<^verbatim>\<open>__closure__\<close>: \<^verbatim>\<open>None\<close>, or a tuple of cells
  whose contents are given here. A function object is truthy. The sink is taken to
  accept every event it is sent.
\<close>

datatype emitter = Emitter (closure: "pyval list option")

record http_request =
  url :: string
  json_payload :: pyval
  headers :: "(string \<times> string) list"

text \<open>
  A response of \<^verbatim>\<open>requests.post\<close>: status code, raw body, and what \<^verbatim>\<open>response.json()\<close>
  does: \<open>Inl m\<close> when it raises an exception \<open>e\<close> with \<^verbatim>\<open>str(e) = m\<close>, \<open>Inr v\<close> when it
  returns \<open>v\<close>.
\<close>

record http_response =
  status_code :: int
  resp_text :: string
  resp_json :: "string + pyval"

text \<open>
  What the adapter calls but does not define: the clock \<^verbatim>\<open>time.time()\<close> (its \<open>k\<close>-th
  reading), \<^verbatim>\<open>requests.post\<close> and \<^verbatim>\<open>urllib.parse.urljoin\<close>. A call that raises gives
  \<open>Inl m\<close>, with \<open>m\<close> the \<^verbatim>\<open>str\<close> of the exception.
\<close>

record env =
  time_time :: "nat \<Rightarrow> real"
  requests_post :: "http_request \<Rightarrow> string + http_response"
  urljoin :: "string \<Rightarrow> string \<Rightarrow> string + string"

text \<open>
  Everything an invocation can change or do: the adapter's \<^verbatim>\<open>last_emit_time\<close>, the
  number of clock readings made, the events delivered to the sink in order, the
  requests posted in order, and the entry \<^verbatim>\<open>body["messages"]\<close> of the chat turn
  (\<open>None\<close> when the key is absent). No other entry of \<^verbatim>\<open>body\<close> is read or written.
\<close>

record pipe_state =
  last_emit_time :: real
  clock_reads :: nat
  sent :: "pyval list"
  requests :: "http_request list"
  body_messages :: "pydict list option"

section \<open>The throttled notifier\<close>

text \<open>The dict literal that \<^verbatim>\<open>emit_status\<close> hands to the sink.\<close>

definition status_event :: "string \<Rightarrow> string \<Rightarrow> bool \<Rightarrow> pyval" where
  "status_event level message done =
     PDict [(''type'', PStr ''status''),
            (''data'', PDict [(''status'', PStr (if done then ''complete'' else ''in_progress'')),
                              (''level'', PStr level),
                              (''description'', PStr message),
                              (''done'', PBool done)])]"

text \<open>\<^verbatim>\<open>Pipe.emit_status\<close> of \<^verbatim>\<open>intelligent_rag_pipe.py\<close>.\<close>

definition emit_status_A ::
  "env \<Rightarrow> valves \<Rightarrow> emitter option \<Rightarrow> string \<Rightarrow> string \<Rightarrow> bool \<Rightarrow> pipe_state \<Rightarrow> pipe_state" where
  "emit_status_A e v event_emitter level message done s =
     (let current_time = time_time e (clock_reads s);
          s1 = s\<lparr>clock_reads := Suc (clock_reads s)\<rparr>
      in if event_emitter \<noteq> None
            \<and> enable_status_indicator v
            \<and> (current_time - last_emit_time s \<ge> emit_interval v \<or> done)
         then (let s2 = s1\<lparr>sent := sent s1 @ [status_event level message done]\<rparr>
               in s2\<lparr>last_emit_time := current_time\<rparr>)
         else s1)"

text \<open>\<^verbatim>\<open>Pipe.emit_status\<close> of \<^verbatim>\<open>openwebui_pipe.py\<close>.\<close>

definition emit_status_B ::
  "env \<Rightarrow> valves \<Rightarrow> emitter option \<Rightarrow> string \<Rightarrow> string \<Rightarrow> bool \<Rightarrow> pipe_state \<Rightarrow> pipe_state" where
  "emit_status_B e v event_emitter level message done s =
     (let current_time = time_time e (clock_reads s);
          s1 = s\<lparr>clock_reads := Suc (clock_reads s)\<rparr>
      in if event_emitter \<noteq> None
            \<and> enable_status_indicator v
            \<and> (current_time - last_emit_time s \<ge> emit_interval v \<or> done)
         then (let s2 = s1\<lparr>sent := sent s1 @ [status_event level message done]\<rparr>
               in s2\<lparr>last_emit_time := current_time\<rparr>)
         else s1)"

section \<open>Strings: \<^verbatim>\<open>str\<close>, \<^verbatim>\<open>repr\<close>, \<^verbatim>\<open>json.dumps\<close>\<close>

definition hex_digit :: "nat \<Rightarrow> char" where
  "hex_digit n = ''0123456789abcdef'' ! n"

text \<open>Decimal numerals, as \<^verbatim>\<open>str\<close> and \<^verbatim>\<open>json.dumps\<close> print an \<^verbatim>\<open>int\<close>.\<close>

fun str_nat :: "nat \<Rightarrow> string" where
  "str_nat n = (if n < 10 then [hex_digit n] else str_nat (n div 10) @ [hex_digit (n mod 10)])"

declare str_nat.simps [simp del]

definition str_int :: "int \<Rightarrow> string" where
  "str_int i = (if i < 0 then ''-'' @ str_nat (nat (- i)) else str_nat (nat i))"

text \<open>\<^verbatim>\<open>sep.join(xs)\<close>.\<close>

fun join :: "string \<Rightarrow> string list \<Rightarrow> string" where
  "join sep [] = []"
| "join sep [x] = x"
| "join sep (x # y # ys) = x @ sep @ join sep (y # ys)"

text \<open>
  \<^verbatim>\<open>repr\<close> of a string: single quotes, unless the string holds a single quote and no
  double quote; the quote and the backslash are escaped, tab, newline and carriage return
  are written \<^verbatim>\<open>\t \n \r\<close>, every other character that is not printable as \<^verbatim>\<open>\xhh\<close>.
\<close>

definition repr_escape_char :: "char \<Rightarrow> char \<Rightarrow> string" where
  "repr_escape_char quote c =
     (let n = (of_char c :: nat) in
      if c = quote \<or> c = CHR 0x5C then [CHR 0x5C, c]
      else if c = CHR 0x09 then [CHR 0x5C, CHR ''t'']
      else if c = CHR 0x0A then [CHR 0x5C, CHR ''n'']
      else if c = CHR 0x0D then [CHR 0x5C, CHR ''r'']
      else if n < 32 \<or> n = 127 \<or> (128 \<le> n \<and> n \<le> 160) \<or> n = 173
        then [CHR 0x5C, CHR ''x'', hex_digit (n div 16), hex_digit (n mod 16)]
      else [c])"

definition str_repr :: "string \<Rightarrow> string" where
  "str_repr s =
     (let quote = (if CHR 0x27 \<in> set s \<and> CHR 0x22 \<notin> set s then CHR 0x22 else CHR 0x27)
      in [quote] @ concat (map (repr_escape_char quote) s) @ [quote])"

fun py_repr :: "pyval \<Rightarrow> string" where
  "py_repr PNone = ''None''"
| "py_repr (PBool b) = (if b then ''True'' else ''False'')"
| "py_repr (PInt i) = str_int i"
| "py_repr (PStr s) = str_repr s"
| "py_repr (PList xs) = ''['' @ join '', '' (map py_repr xs) @ '']''"
| "py_repr (PDict d) =
     ''{'' @ join '', '' (map (\<lambda>(k, x). str_repr k @ '': '' @ py_repr x) d) @ ''}''"

text \<open>\<^verbatim>\<open>str(x)\<close>, which is also what an f-string writes for \<^verbatim>\<open>{x}\<close>.\<close>

definition py_str :: "pyval \<Rightarrow> string" where
  "py_str x = (case x of PStr s \<Rightarrow> s | _ \<Rightarrow> py_repr x)"

definition type_name :: "pyval \<Rightarrow> string" where
  "type_name x = (case x of PNone \<Rightarrow> ''NoneType'' | PBool _ \<Rightarrow> ''bool'' | PInt _ \<Rightarrow> ''int''
                  | PStr _ \<Rightarrow> ''str'' | PList _ \<Rightarrow> ''list'' | PDict _ \<Rightarrow> ''dict'')"

text \<open>
  \<^verbatim>\<open>json.dumps(x, indent=2)\<close>: with an indent the item separator is a comma followed by a
  newline and the indentation, the key separator a colon and a space; strings are
  written in ASCII, every character outside \<^verbatim>\<open>' '..'~'\<close> escaped.
\<close>

definition json_escape_char :: "char \<Rightarrow> string" where
  "json_escape_char c =
     (let n = (of_char c :: nat) in
      if c = CHR 0x22 then [CHR 0x5C, CHR 0x22]
      else if c = CHR 0x5C then [CHR 0x5C, CHR 0x5C]
      else if c = CHR 0x0A then [CHR 0x5C, CHR ''n'']
      else if c = CHR 0x0D then [CHR 0x5C, CHR ''r'']
      else if c = CHR 0x09 then [CHR 0x5C, CHR ''t'']
      else if c = CHR 0x08 then [CHR 0x5C, CHR ''b'']
      else if c = CHR 0x0C then [CHR 0x5C, CHR ''f'']
      else if n < 32 \<or> 126 < n
        then [CHR 0x5C, CHR ''u'', CHR ''0'', CHR ''0'', hex_digit (n div 16), hex_digit (n mod 16)]
      else [c])"

definition json_string :: "string \<Rightarrow> string" where
  "json_string s = [CHR 0x22] @ concat (map json_escape_char s) @ [CHR 0x22]"

definition indent_nl :: "nat \<Rightarrow> string" where
  "indent_nl level = CHR 0x0A # replicate (2 * level) CHR '' ''"

fun json_dumps_at :: "nat \<Rightarrow> pyval \<Rightarrow> string" where
  "json_dumps_at level PNone = ''null''"
| "json_dumps_at level (PBool b) = (if b then ''true'' else ''false'')"
| "json_dumps_at level (PInt i) = str_int i"
| "json_dumps_at level (PStr s) = json_string s"
| "json_dumps_at level (PList xs) =
     (if xs = [] then ''[]''
      else ''['' @ indent_nl (Suc level)
           @ join ('','' @ indent_nl (Suc level)) (map (json_dumps_at (Suc level)) xs)
           @ indent_nl level @ '']'')"
| "json_dumps_at level (PDict d) =
     (if d = [] then ''{}''
      else ''{'' @ indent_nl (Suc level)
           @ join ('','' @ indent_nl (Suc level))
               (map (\<lambda>(k, x). json_string k @ '': '' @ json_dumps_at (Suc level) x) d)
           @ indent_nl level @ ''}'')"

definition json_dumps :: "pyval \<Rightarrow> string" where
  "json_dumps x = json_dumps_at 0 x"

section \<open>Exceptions and results\<close>

text \<open>
  The exceptions that can leave \<^verbatim>\<open>pipe\<close>: a missing dict key, and a local variable read
  before it is bound. An exception raised inside the \<^verbatim>\<open>try\<close> block is caught by
  \<^verbatim>\<open>except Exception as e\<close>, which uses nothing but \<^verbatim>\<open>str(e)\<close>; such an exception is
  carried as that string.
\<close>

datatype exc = KeyError string | UnboundLocalError string

datatype outcome = Returned pyval | Raised exc

text \<open>\<^verbatim>\<open>str(KeyError(k))\<close> is \<^verbatim>\<open>repr(k)\<close>.\<close>

definition key_error_str :: "string \<Rightarrow> string" where
  "key_error_str k = str_repr k"

text \<open>\<^verbatim>\<open>body["messages"].append(msg)\<close>; \<open>None\<close> when the key is absent (a \<^verbatim>\<open>KeyError\<close>).\<close>

definition messages_append :: "pydict \<Rightarrow> pipe_state \<Rightarrow> pipe_state option" where
  "messages_append msg s =
     (case body_messages s of
        None \<Rightarrow> None
      | Some ms \<Rightarrow> Some (s\<lparr>body_messages := Some (ms @ [msg])\<rparr>))"

section \<open>Closure inspection\<close>

text \<open>
  \<^verbatim>\<open>extract_event_info\<close>, the same in both modules: the \<^verbatim>\<open>chat_id\<close> and \<^verbatim>\<open>message_id\<close>
  entries of the first closure cell that holds a dict.
\<close>

fun first_dict_cell :: "pyval list \<Rightarrow> pyval \<times> pyval" where
  "first_dict_cell [] = (PNone, PNone)"
| "first_dict_cell (PDict request_info # cells) =
     (dict_get request_info ''chat_id'' PNone, dict_get request_info ''message_id'' PNone)"
| "first_dict_cell (_ # cells) = first_dict_cell cells"

definition extract_event_info :: "emitter option \<Rightarrow> pyval \<times> pyval" where
  "extract_event_info event_emitter =
     (case event_emitter of
        None \<Rightarrow> (PNone, PNone)
      | Some f \<Rightarrow>
          (case closure f of
             None \<Rightarrow> (PNone, PNone)
           | Some cells \<Rightarrow> if cells = [] then (PNone, PNone) else first_dict_cell cells))"

section \<open>Variant A: \<^verbatim>\<open>intelligent_rag_pipe.py\<close>\<close>

text \<open>The arguments of \<^verbatim>\<open>requests.post\<close>: URL, JSON payload and headers.\<close>

definition request_A :: "valves \<Rightarrow> pyval \<Rightarrow> http_request" where
  "request_A v question =
     (let hdrs = [(''Content-Type'', ''application/json'')];
          payload = PDict [(''projectId'', PStr (project_id v)),
                           (''query'', question),
                           (''thinkingDepth'', PInt (thinking_depth v))]
      in \<lparr>url = server_url v @ ''/api/query'', json_payload = payload, headers = hdrs\<rparr>)"

text \<open>
  The body of the \<^verbatim>\<open>try\<close> block of \<^verbatim>\<open>Pipe.pipe\<close>: \<open>Inl m\<close> when it raises an exception
  with \<^verbatim>\<open>str\<close> \<open>m\<close>, \<open>Inr answer\<close> when it completes, together with the state reached.
\<close>

definition try_A :: "env \<Rightarrow> valves \<Rightarrow> pyval \<Rightarrow> pipe_state \<Rightarrow> (string + pyval) \<times> pipe_state" where
  "try_A e v question s =
     (let req = request_A v question;
          s1 = s\<lparr>requests := requests s @ [req]\<rparr>
      in case requests_post e req of
           Inl m \<Rightarrow> (Inl m, s1)
         | Inr response \<Rightarrow>
             if status_code response = 200 then
               (case resp_json response of
                  Inl m \<Rightarrow> (Inl m, s1)
                | Inr rag_response \<Rightarrow>
                    (case rag_response of
                       PDict d \<Rightarrow>
                         (let answer = dict_get d ''answer'' (PStr []);
                              logv = dict_get d ''log'' (PStr [])
                          in case (if truthy logv
                                   then messages_append
                                          [(''role'', PStr ''system''),
                                           (''content'', PStr (''Thinking process:\<newline>'' @ py_str logv))] s1
                                   else Some s1) of
                               None \<Rightarrow> (Inl (key_error_str ''messages''), s1)
                             | Some s2 \<Rightarrow>
                                 (case messages_append
                                         [(''role'', PStr ''assistant''), (''content'', answer)] s2 of
                                    None \<Rightarrow> (Inl (key_error_str ''messages''), s2)
                                  | Some s3 \<Rightarrow> (Inr answer, s3)))
                     | _ \<Rightarrow> (Inl ([CHR 0x27] @ type_name rag_response
                                   @ [CHR 0x27] @ '' object has no attribute '' @ str_repr ''get''), s1)))
             else (Inl (''Error: '' @ str_int (status_code response) @ '' - '' @ resp_text response), s1))"

text \<open>
  \<^verbatim>\<open>Pipe.pipe\<close>. The empty-list branch has no \<^verbatim>\<open>return\<close>: it goes on to the last two
  statements of the function, the second of which reads \<^verbatim>\<open>answer\<close>, bound only inside
  the \<^verbatim>\<open>try\<close> block.
\<close>

definition pipe_A :: "env \<Rightarrow> valves \<Rightarrow> emitter option \<Rightarrow> pipe_state \<Rightarrow> outcome \<times> pipe_state" where
  "pipe_A e v event_emitter s0 =
     (let s1 = emit_status_A e v event_emitter ''info'' ''Querying intelligent RAG server...'' False s0;
          (chat_id, _) = extract_event_info event_emitter;
          messages = (case body_messages s1 of None \<Rightarrow> [] | Some ms \<Rightarrow> ms)
      in if messages \<noteq> [] then
           (case map_of (last messages) ''content'' of
              None \<Rightarrow> (Raised (KeyError ''content''), s1)
            | Some question \<Rightarrow>
                (case try_A e v question s1 of
                   (Inl str_e, s2) \<Rightarrow>
                     (let s3 = emit_status_A e v event_emitter ''error''
                                 (''Error during RAG query: '' @ str_e) True s2
                      in (Returned (PDict [(''error'', PStr str_e)]), s3))
                 | (Inr answer, s2) \<Rightarrow>
                     (let s3 = emit_status_A e v event_emitter ''info'' ''Complete'' True s2
                      in (Returned answer, s3))))
         else
           (let s2 = emit_status_A e v event_emitter ''error''
                       ''No messages found in the request body'' True s1
            in case messages_append
                      [(''role'', PStr ''assistant''),
                       (''content'', PStr ''No messages found in the request body'')] s2 of
                 None \<Rightarrow> (Raised (KeyError ''messages''), s2)
               | Some s3 \<Rightarrow>
                   (let s4 = emit_status_A e v event_emitter ''info'' ''Complete'' True s3
                    in (Raised (UnboundLocalError ''answer''), s4))))"

section \<open>Variant B: \<^verbatim>\<open>openwebui_pipe.py\<close>\<close>

text \<open>
  The loop over \<^verbatim>\<open>messages[:-1]\<close> that collects the context lines; \<open>Inl m\<close> when a
  message lacks a key that the loop reads.
\<close>

fun build_context :: "pydict list \<Rightarrow> string list \<Rightarrow> string + string list" where
  "build_context [] context = Inr context"
| "build_context (msg # rest) context =
     (case map_of msg ''role'' of
        None \<Rightarrow> Inl (key_error_str ''role'')
      | Some role \<Rightarrow>
          if role \<in> set [PStr ''assistant'', PStr ''user''] then
            (case map_of msg ''content'' of
               None \<Rightarrow> Inl (key_error_str ''content'')
             | Some content \<Rightarrow>
                 build_context rest (context @ [py_str role @ '': '' @ py_str content]))
          else build_context rest context)"

text \<open>
  The 200 branch after \<^verbatim>\<open>response.json()\<close>: \<^verbatim>\<open>rag_response["answer"]\<close>, then the
  reasoning block when the reply has a \<^verbatim>\<open>log\<close> key. Subscripting a value that is not a
  dict with a string raises a \<^verbatim>\<open>TypeError\<close> (texts of CPython 3.11 and later).
\<close>

definition answer_B :: "pyval \<Rightarrow> string + pyval" where
  "answer_B rag_response =
     (case rag_response of
        PDict d \<Rightarrow>
          (case map_of d ''answer'' of
             None \<Rightarrow> Inl (key_error_str ''answer'')
           | Some answer \<Rightarrow>
               (case map_of d ''log'' of
                  Some logv \<Rightarrow>
                    (let reasoning = json_dumps logv
                     in Inr (PStr (py_str answer @ ''\<newline>\<newline>```json\<newline>Reasoning:\<newline>''
                                   @ reasoning @ ''\<newline>```'')))
                | None \<Rightarrow> Inr answer))
      | PList _ \<Rightarrow> Inl ''list indices must be integers or slices, not str''
      | PStr _ \<Rightarrow> Inl (''string indices must be integers, not '' @ str_repr ''str'')
      | _ \<Rightarrow> Inl ([CHR 0x27] @ type_name rag_response @ [CHR 0x27] @ '' object is not subscriptable''))"

text \<open>The arguments of \<^verbatim>\<open>requests.post\<close>, from the context lines and the joined URL.\<close>

definition request_B :: "valves \<Rightarrow> pyval \<Rightarrow> string list \<Rightarrow> string \<Rightarrow> http_request" where
  "request_B v question context query_url =
     (let hdrs = [(''Content-Type'', ''application/json'')];
          payload = PDict [(''projectId'', PStr (project_id v)),
                           (''query'', question),
                           (''thinkingDepth'', PInt (thinking_depth v)),
                           (''context'', if context \<noteq> [] then PStr (join ''\<newline>'' context)
                                         else PNone)]
      in \<lparr>url = query_url, json_payload = payload, headers = hdrs\<rparr>)"

text \<open>
  The body of the \<^verbatim>\<open>try\<close> block of \<^verbatim>\<open>Pipe.pipe\<close>, which here ends with the \<^verbatim>\<open>return\<close>
  of the answer.
\<close>

definition try_B ::
  "env \<Rightarrow> valves \<Rightarrow> emitter option \<Rightarrow> pydict list \<Rightarrow> pyval \<Rightarrow> pipe_state
     \<Rightarrow> (string + pyval) \<times> pipe_state" where
  "try_B e v event_emitter messages question s =
     (case build_context (butlast messages) [] of
        Inl m \<Rightarrow> (Inl m, s)
      | Inr context \<Rightarrow>
          (case urljoin e (server_url v) ''/api/query'' of
                Inl m \<Rightarrow> (Inl m, s)
              | Inr query_url \<Rightarrow>
                  (let s1 = emit_status_B e v event_emitter ''info'' ''Processing query...'' False s;
                       req = request_B v question context query_url;
                       s2 = s1\<lparr>requests := requests s1 @ [req]\<rparr>
                   in case requests_post e req of
                        Inl m \<Rightarrow> (Inl m, s2)
                      | Inr response \<Rightarrow>
                          (case (if status_code response = 200
                                 then (case resp_json response of
                                         Inl m \<Rightarrow> Inl m
                                       | Inr rag_response \<Rightarrow> answer_B rag_response)
                                 else Inl (''Error: '' @ str_int (status_code response)
                                           @ '' - '' @ resp_text response)) of
                             Inl m \<Rightarrow> (Inl m, s2)
                           | Inr answer \<Rightarrow>
                               (case messages_append
                                       [(''role'', PStr ''assistant''), (''content'', answer)] s2 of
                                  None \<Rightarrow> (Inl (key_error_str ''messages''), s2)
                                | Some s3 \<Rightarrow>
                                    (let s4 = emit_status_B e v event_emitter ''info''
                                                ''Response generated successfully'' True s3
                                     in (Inr answer, s4)))))))"

definition pipe_B :: "env \<Rightarrow> valves \<Rightarrow> emitter option \<Rightarrow> pipe_state \<Rightarrow> outcome \<times> pipe_state" where
  "pipe_B e v event_emitter s0 =
     (let s1 = emit_status_B e v event_emitter ''info'' ''Calling Intelligent RAG Server...'' False s0;
          (chat_id, _) = extract_event_info event_emitter;
          messages = (case body_messages s1 of None \<Rightarrow> [] | Some ms \<Rightarrow> ms)
      in if messages \<noteq> [] then
           (case map_of (last messages) ''content'' of
              None \<Rightarrow> (Raised (KeyError ''content''), s1)
            | Some question \<Rightarrow>
                (case try_B e v event_emitter messages question s1 of
                   (Inl str_e, s2) \<Rightarrow>
                     (let error_msg = ''Error during RAG query: '' @ str_e;
                          s3 = emit_status_B e v event_emitter ''error'' error_msg True s2
                      in (Returned (PDict [(''error'', PStr error_msg)]), s3))
                 | (Inr answer, s2) \<Rightarrow> (Returned answer, s2)))
         else
           (let error_msg = ''No messages found in the request body'';
                s2 = emit_status_B e v event_emitter ''error'' error_msg True s1
            in case messages_append
                      [(''role'', PStr ''assistant''), (''content'', PStr error_msg)] s2 of
                 None \<Rightarrow> (Raised (KeyError ''messages''), s2)
               | Some s3 \<Rightarrow> (Returned (PDict [(''error'', PStr error_msg)]), s3)))"

section \<open>The context string, as specified\<close>

text \<open>A field of the JSON payload of a request.\<close>

definition payload_field :: "http_request \<Rightarrow> string \<Rightarrow> pyval option" where
  "payload_field r k = (case json_payload r of PDict d \<Rightarrow> map_of d k | _ \<Rightarrow> None)"

text \<open>The line \<^verbatim>\<open>role: content\<close> of a message.\<close>

definition context_line :: "pydict \<Rightarrow> string" where
  "context_line msg =
     py_str (dict_get msg ''role'' PNone) @ '': '' @ py_str (dict_get msg ''content'' PNone)"

text \<open>
  The context as the data model of the specification words it: the lines of all
  messages except the last, joined by newlines; absent when there are no prior messages.
\<close>

definition context_claimed :: "pydict list \<Rightarrow> pyval" where
  "context_claimed prior =
     (if prior = [] then PNone else PStr (join ''\<newline>'' (map context_line prior)))"

text \<open>
  The context as the component design words it: the lines of the earlier messages whose
  role is \<^verbatim>\<open>user\<close> or \<^verbatim>\<open>assistant\<close>; absent when there is no such message.
\<close>

definition chat_role :: "pydict \<Rightarrow> bool" where
  "chat_role msg = (map_of msg ''role'' \<in> {Some (PStr ''assistant''), Some (PStr ''user'')})"

definition context_of :: "pydict list \<Rightarrow> pyval" where
  "context_of prior =
     (let lines = map context_line (filter chat_role prior)
      in if lines = [] then PNone else PStr (join ''\<newline>'' lines))"

section \<open>Sample inputs\<close>

text \<open>The configuration \<^verbatim>\<open>Valves()\<close> with every field at its default.\<close>

definition default_valves :: valves where
  "default_valves = \<lparr>server_url = ''http://localhost:3000'', project_id = ''default'',
     thinking_depth = 2, emit_interval = 2, enable_status_indicator = True\<rparr>"

text \<open>A fresh adapter (\<^verbatim>\<open>last_emit_time = 0\<close>) invoked on a body with the given messages.\<close>

definition fresh :: "pydict list option \<Rightarrow> pipe_state" where
  "fresh ms = \<lparr>last_emit_time = 0, clock_reads = 0, sent = [], requests = [], body_messages = ms\<rparr>"

text \<open>A response with the given status, raw body and outcome of \<^verbatim>\<open>response.json()\<close>.\<close>

definition reply :: "int \<Rightarrow> string \<Rightarrow> string + pyval \<Rightarrow> http_response" where
  "reply code body js = \<lparr>status_code = code, resp_text = body, resp_json = js\<rparr>"

text \<open>
  A service that answers every request with the given response, a clock that starts at
  100 seconds and advances one second per reading, and \<^verbatim>\<open>urljoin\<close> on a base without a
  path.
\<close>

definition service :: "http_response \<Rightarrow> env" where
  "service resp =
     \<lparr>time_time = (\<lambda>k. 100 + real k),
      requests_post = (\<lambda>r. Inr resp),
      urljoin = (\<lambda>base path. Inr (base @ path))\<rparr>"

text \<open>The replies used below; the raw body of a 200 reply is not read and left empty.\<close>

definition server_error :: http_response where
  "server_error = reply 500 ''server error'' (Inl ''Expecting value: line 1 column 1 (char 0)'')"

definition answer_with_log :: http_response where
  "answer_with_log = reply 200 [] (Inr (PDict [(''answer'', PStr ''X''), (''log'', PStr ''Y'')]))"

definition empty_object :: http_response where
  "empty_object = reply 200 [] (Inr (PDict []))"

definition user_msg :: "string \<Rightarrow> pydict" where
  "user_msg c = [(''role'', PStr ''user''), (''content'', PStr c)]"

definition system_msg :: "string \<Rightarrow> pydict" where
  "system_msg c = [(''role'', PStr ''system''), (''content'', PStr c)]"

definition a_sink :: "emitter option" where
  "a_sink = Some (Emitter None)"

section \<open>Frame of the notifier, the request posted, and the result on each path\<close>

text \<open>The notifier touches neither the requests nor the messages.\<close>

lemma emit_status_A_frame [simp]:
  "requests (emit_status_A e v sink level message done s) = requests s"
  "body_messages (emit_status_A e v sink level message done s) = body_messages s"
  by (simp_all add: emit_status_A_def Let_def)

lemma emit_status_B_frame [simp]:
  "requests (emit_status_B e v sink level message done s) = requests s"
  "body_messages (emit_status_B e v sink level message done s) = body_messages s"
  by (simp_all add: emit_status_B_def Let_def)

text \<open>A terminal notification is delivered whenever there is a sink and notifications are on.\<close>

lemma emit_status_A_terminal:
  "sink \<noteq> None \<Longrightarrow> enable_status_indicator v \<Longrightarrow>
   sent (emit_status_A e v sink level message True s) = sent s @ [status_event level message True]"
  by (simp add: emit_status_A_def Let_def)

lemma emit_status_B_terminal:
  "sink \<noteq> None \<Longrightarrow> enable_status_indicator v \<Longrightarrow>
   sent (emit_status_B e v sink level message True s) = sent s @ [status_event level message True]"
  by (simp add: emit_status_B_def Let_def)

text \<open>
  An invocation posts at most one request, and only from a message list that is not
  empty and whose last message has a content; variant B moreover needs the context loop
  and \<^verbatim>\<open>urljoin\<close> to return.
\<close>

lemma try_A_requests:
  "requests (snd (try_A e v q s)) = requests s @ [request_A v q]"
  by (auto simp: try_A_def Let_def messages_append_def split: sum.splits option.splits pyval.splits)

lemma pipe_A_dispatched:
  assumes "requests (snd (pipe_A e v sink s)) = requests s @ [r]"
  shows "\<exists>ms q. body_messages s = Some ms \<and> ms \<noteq> [] \<and> map_of (last ms) ''content'' = Some q
           \<and> r = request_A v q"
proof (cases "body_messages s")
  case None
  with assms show ?thesis
    by (simp add: pipe_A_def Let_def messages_append_def split: prod.splits)
next
  case (Some ms)
  show ?thesis
  proof (cases "ms = []")
    case True
    with Some assms show ?thesis
      by (simp add: pipe_A_def Let_def messages_append_def split: prod.splits)
  next
    case False
    show ?thesis
    proof (cases "map_of (last ms) ''content''")
      case None
      with Some False assms show ?thesis
        by (simp add: pipe_A_def Let_def split: prod.splits)
    next
      case (Some q)
      have "requests (snd (pipe_A e v sink s)) = requests s @ [request_A v q]"
        using \<open>body_messages s = Some ms\<close> False Some
          try_A_requests [of e v q "emit_status_A e v sink ''info'' ''Querying intelligent RAG server...'' False s"]
        by (auto simp: pipe_A_def Let_def split: prod.splits sum.splits)
      with assms have "r = request_A v q" by simp
      with \<open>body_messages s = Some ms\<close> False Some show ?thesis by simp
    qed
  qed
qed

lemma try_B_requests:
  "requests (snd (try_B e v sink ms q s)) = requests s
   \<or> (\<exists>ctx u. build_context (butlast ms) [] = Inr ctx
          \<and> urljoin e (server_url v) ''/api/query'' = Inr u
          \<and> requests (snd (try_B e v sink ms q s)) = requests s @ [request_B v q ctx u])"
  by (auto simp: try_B_def Let_def messages_append_def split: sum.splits option.splits)

lemma pipe_B_dispatched:
  assumes "requests (snd (pipe_B e v sink s)) = requests s @ [r]"
  shows "\<exists>ms q ctx u. body_messages s = Some ms \<and> ms \<noteq> [] \<and> map_of (last ms) ''content'' = Some q
           \<and> build_context (butlast ms) [] = Inr ctx
           \<and> urljoin e (server_url v) ''/api/query'' = Inr u
           \<and> r = request_B v q ctx u"
proof (cases "body_messages s")
  case None
  with assms show ?thesis
    by (simp add: pipe_B_def Let_def messages_append_def split: prod.splits)
next
  case (Some ms)
  show ?thesis
  proof (cases "ms = []")
    case True
    with Some assms show ?thesis
      by (simp add: pipe_B_def Let_def messages_append_def split: prod.splits)
  next
    case False
    show ?thesis
    proof (cases "map_of (last ms) ''content''")
      case None
      with Some False assms show ?thesis
        by (simp add: pipe_B_def Let_def split: prod.splits)
    next
      case (Some q)
      let ?s1 = "emit_status_B e v sink ''info'' ''Calling Intelligent RAG Server...'' False s"
      have eq: "requests (snd (pipe_B e v sink s)) = requests (snd (try_B e v sink ms q ?s1))"
        using \<open>body_messages s = Some ms\<close> False Some
        by (auto simp: pipe_B_def Let_def split: prod.splits sum.splits)
      from try_B_requests [of e v sink ms q ?s1] assms eq
      obtain ctx u where "build_context (butlast ms) [] = Inr ctx"
        "urljoin e (server_url v) ''/api/query'' = Inr u" "r = request_B v q ctx u"
        by auto
      with \<open>body_messages s = Some ms\<close> False Some show ?thesis by simp
    qed
  qed
qed

text \<open>The values of two strings that the properties below spell out.\<close>

lemma str_int_500: "str_int 500 = ''500''"
  by (simp add: str_int_def str_nat.simps hex_digit_def)

lemma key_error_str_answer: "key_error_str ''answer'' = [CHR 0x27] @ ''answer'' @ [CHR 0x27]"
  by (simp add: key_error_str_def str_repr_def repr_escape_char_def Let_def)

text \<open>The whole result of an invocation whose request is answered with status 200.\<close>

lemma pipe_A_success:
  assumes "body_messages s = Some ms" and "ms \<noteq> []" and "map_of (last ms) ''content'' = Some q"
    and "requests_post e (request_A v q) = Inr resp" and "status_code resp = 200"
    and "resp_json resp = Inr (PDict d)"
  shows "pipe_A e v sink s =
     (Returned (dict_get d ''answer'' (PStr [])),
      emit_status_A e v sink ''info'' ''Complete'' True
        ((emit_status_A e v sink ''info'' ''Querying intelligent RAG server...'' False s)
           \<lparr>requests := requests s @ [request_A v q],
            body_messages := Some (ms
              @ (if truthy (dict_get d ''log'' (PStr []))
                 then [[(''role'', PStr ''system''),
                        (''content'', PStr (''Thinking process:\<newline>''
                                            @ py_str (dict_get d ''log'' (PStr []))))]]
                 else [])
              @ [[(''role'', PStr ''assistant''), (''content'', dict_get d ''answer'' (PStr []))]])\<rparr>))"
  using assms
  by (simp add: pipe_A_def try_A_def Let_def messages_append_def split: prod.splits)

lemma pipe_B_success:
  assumes "body_messages s = Some ms" and "ms \<noteq> []" and "map_of (last ms) ''content'' = Some q"
    and "build_context (butlast ms) [] = Inr ctx"
    and "urljoin e (server_url v) ''/api/query'' = Inr u"
    and "requests_post e (request_B v q ctx u) = Inr resp" and "status_code resp = 200"
    and "resp_json resp = Inr rag" and "answer_B rag = Inr a"
  shows "pipe_B e v sink s =
     (Returned a,
      emit_status_B e v sink ''info'' ''Response generated successfully'' True
        ((emit_status_B e v sink ''info'' ''Processing query...'' False
            (emit_status_B e v sink ''info'' ''Calling Intelligent RAG Server...'' False s))
           \<lparr>requests := requests s @ [request_B v q ctx u],
            body_messages := Some (ms @ [[(''role'', PStr ''assistant''), (''content'', a)]])\<rparr>))"
  using assms
  by (simp add: pipe_B_def try_B_def Let_def messages_append_def split: prod.splits)

lemma pipe_B_caught:
  assumes "body_messages s = Some ms" and "ms \<noteq> []" and "map_of (last ms) ''content'' = Some q"
    and "build_context (butlast ms) [] = Inr ctx"
    and "urljoin e (server_url v) ''/api/query'' = Inr u"
    and "requests_post e (request_B v q ctx u) = Inr resp" and "status_code resp = 200"
    and "resp_json resp = Inr rag" and "answer_B rag = Inl m"
  shows "pipe_B e v sink s =
     (Returned (PDict [(''error'', PStr (''Error during RAG query: '' @ m))]),
      emit_status_B e v sink ''error'' (''Error during RAG query: '' @ m) True
        ((emit_status_B e v sink ''info'' ''Processing query...'' False
            (emit_status_B e v sink ''info'' ''Calling Intelligent RAG Server...'' False s))
           \<lparr>requests := requests s @ [request_B v q ctx u]\<rparr>))"
  using assms
  by (simp add: pipe_B_def try_B_def Let_def messages_append_def split: prod.splits)

lemma answer_B_present:
  "map_of d ''answer'' = Some a \<Longrightarrow> \<exists>x. answer_B (PDict d) = Inr x"
  by (simp add: answer_B_def split: option.splits)

lemma answer_B_absent:
  "map_of d ''answer'' = None \<Longrightarrow>
   answer_B (PDict d) = Inl ([CHR 0x27] @ ''answer'' @ [CHR 0x27])"
  by (simp add: answer_B_def key_error_str_answer)



text \<open>The context loop collects the lines of the messages with a chat role, in order.\<close>

lemma build_context_lines:
  "build_context prior acc = Inr ctx \<Longrightarrow> ctx = acc @ map context_line (filter chat_role prior)"
proof (induction prior arbitrary: acc)
  case Nil
  then show ?case by simp
next
  case (Cons msg rest)
  show ?case
  proof (cases "chat_role msg")
    case True
    with Cons.prems have "build_context rest (acc @ [context_line msg]) = Inr ctx"
      by (auto simp: context_line_def chat_role_def dict_get_def py_str_def
          split: option.splits if_splits)
    from Cons.IH [OF this] True show ?thesis by simp
  next
    case False
    with Cons.prems have "build_context rest acc = Inr ctx"
      by (auto simp: chat_role_def split: option.splits if_splits)
    from Cons.IH [OF this] False show ?thesis by simp
  qed
qed

text \<open>The definitions that evaluating an invocation on a concrete input unfolds.\<close>

lemmas run_defs = pipe_A_def pipe_B_def try_A_def try_B_def request_A_def request_B_def
  emit_status_A_def emit_status_B_def extract_event_info_def messages_append_def answer_B_def
  status_event_def fresh_def default_valves_def service_def reply_def user_msg_def
  a_sink_def server_error_def answer_with_log_def dict_get_def Let_def
  str_int_def str_nat.simps hex_digit_def key_error_str_def str_repr_def repr_escape_char_def
  json_dumps_def json_string_def json_escape_char_def py_str_def

section \<open>C1: the empty message list\<close>

text \<open>
  C1. Variant A invoked on \<^verbatim>\<open>{"messages": []}\<close> (no sink, default configuration, fresh
  adapter) posts nothing and appends the one assistant message, but it returns no error
  result: the invocation ends with \<^verbatim>\<open>UnboundLocalError\<close> for \<^verbatim>\<open>answer\<close>.
\<close>

theorem pipe_A_empty_list_raises:
  "pipe_A (service server_error) default_valves None (fresh (Some []))
     = (Raised (UnboundLocalError ''answer''),
        \<lparr>last_emit_time = 0, clock_reads = 3, sent = [], requests = [],
         body_messages = Some [[(''role'', PStr ''assistant''),
                                (''content'', PStr ''No messages found in the request body'')]]\<rparr>)"
  by (simp add: pipe_A_def emit_status_A_def extract_event_info_def messages_append_def
      fresh_def default_valves_def service_def Let_def)

text \<open>
  The same holds for every configuration, sink and adapter state, while variant B does on
  every empty message list what the specification asks: it returns the error result, appends
  exactly the one assistant message and posts nothing.
\<close>

lemma pipe_A_empty_list:
  assumes "body_messages s = Some []"
  shows "fst (pipe_A e v sink s) = Raised (UnboundLocalError ''answer'')"
  using assms by (simp add: pipe_A_def Let_def messages_append_def split: prod.splits)

lemma pipe_B_empty_list:
  assumes "body_messages s = Some []"
  shows "fst (pipe_B e v sink s)
           = Returned (PDict [(''error'', PStr ''No messages found in the request body'')])
         \<and> body_messages (snd (pipe_B e v sink s))
           = Some [[(''role'', PStr ''assistant''),
                    (''content'', PStr ''No messages found in the request body'')]]
         \<and> requests (snd (pipe_B e v sink s)) = requests s"
  using assms by (simp add: pipe_B_def Let_def messages_append_def split: prod.splits)

section \<open>C2: exceptions that leave the adapter\<close>

text \<open>
  C2. Variant A invoked on \<^verbatim>\<open>{"messages": []}\<close> with a sink sends the start notification,
  the terminal error notification and then the notification \<^verbatim>\<open>Complete\<close>, and the
  exception \<^verbatim>\<open>UnboundLocalError\<close> leaves \<^verbatim>\<open>pipe\<close>: the input error is not turned into
  a returned \<^verbatim>\<open>{error: message}\<close>.
\<close>

theorem pipe_A_empty_list_escapes:
  "fst (pipe_A (service answer_with_log) default_valves a_sink (fresh (Some [])))
     = Raised (UnboundLocalError ''answer'')
   \<and> sent (snd (pipe_A (service answer_with_log) default_valves a_sink (fresh (Some []))))
     = [status_event ''info'' ''Querying intelligent RAG server...'' False,
        status_event ''error'' ''No messages found in the request body'' True,
        status_event ''info'' ''Complete'' True]"
  by (simp add: run_defs)

text \<open>
  Two more exceptions leave \<^verbatim>\<open>pipe\<close>, in either variant, since the statements that
  raise them stand outside the \<^verbatim>\<open>try\<close> block: the \<^verbatim>\<open>KeyError\<close> of
  \<^verbatim>\<open>body["messages"].append\<close> for a body without the key \<^verbatim>\<open>messages\<close>, and the
  \<^verbatim>\<open>KeyError\<close> of \<^verbatim>\<open>messages[-1]["content"]\<close> for a last message without content.
\<close>

lemma pipe_without_messages_key:
  assumes "body_messages s = None"
  shows "fst (pipe_A e v sink s) = Raised (KeyError ''messages'')"
    and "fst (pipe_B e v sink s) = Raised (KeyError ''messages'')"
  using assms
  by (simp_all add: pipe_A_def pipe_B_def Let_def messages_append_def split: prod.splits)

lemma pipe_without_content:
  assumes "body_messages s = Some ms" and "ms \<noteq> []" and "map_of (last ms) ''content'' = None"
  shows "fst (pipe_A e v sink s) = Raised (KeyError ''content'')"
    and "fst (pipe_B e v sink s) = Raised (KeyError ''content'')"
  using assms
  by (simp_all add: pipe_A_def pipe_B_def Let_def split: prod.splits)

section \<open>C3: a 500 response\<close>

text \<open>
  C3, as amended. For every invocation that posts a request and receives a response with
  status 500 and body \<^verbatim>\<open>server error\<close>: variant B returns exactly
  \<^verbatim>\<open>{"error": "Error during RAG query: Error: 500 - server error"}\<close>, variant A returns
  exactly \<^verbatim>\<open>{"error": "Error: 500 - server error"}\<close>, and neither changes the message
  list. In both variants, with a sink and notifications enabled, the last notification
  sent is the terminal error notification whose message is
  \<^verbatim>\<open>Error during RAG query: Error: 500 - server error\<close>: in variant A the prefix stands
  there and not in the value returned.
\<close>

theorem http_500_result:
  assumes "status_code resp = 500" and "resp_text resp = ''server error''"
  shows "(requests (snd (pipe_A e v sink s)) = requests s @ [r] \<and> requests_post e r = Inr resp
            \<longrightarrow> fst (pipe_A e v sink s) = Returned (PDict [(''error'', PStr ''Error: 500 - server error'')])
                \<and> body_messages (snd (pipe_A e v sink s)) = body_messages s
                \<and> (sink \<noteq> None \<and> enable_status_indicator v
                     \<longrightarrow> sent (snd (pipe_A e v sink s)) \<noteq> []
                         \<and> last (sent (snd (pipe_A e v sink s)))
                             = PDict [(''type'', PStr ''status''),
                                 (''data'', PDict [(''status'', PStr ''complete''),
                                    (''level'', PStr ''error''),
                                    (''description'',
                                       PStr ''Error during RAG query: Error: 500 - server error''),
                                    (''done'', PBool True)])]))
       \<and> (requests (snd (pipe_B e v sink s)) = requests s @ [r] \<and> requests_post e r = Inr resp
            \<longrightarrow> fst (pipe_B e v sink s)
                  = Returned (PDict [(''error'', PStr ''Error during RAG query: Error: 500 - server error'')])
                \<and> body_messages (snd (pipe_B e v sink s)) = body_messages s
                \<and> (sink \<noteq> None \<and> enable_status_indicator v
                     \<longrightarrow> sent (snd (pipe_B e v sink s)) \<noteq> []
                         \<and> last (sent (snd (pipe_B e v sink s)))
                             = PDict [(''type'', PStr ''status''),
                                 (''data'', PDict [(''status'', PStr ''complete''),
                                    (''level'', PStr ''error''),
                                    (''description'',
                                       PStr ''Error during RAG query: Error: 500 - server error''),
                                    (''done'', PBool True)])]))"
proof (intro conjI impI)
  assume a: "requests (snd (pipe_A e v sink s)) = requests s @ [r] \<and> requests_post e r = Inr resp"
  then obtain ms q where ms: "body_messages s = Some ms" "ms \<noteq> []"
      "map_of (last ms) ''content'' = Some q" "r = request_A v q"
    using pipe_A_dispatched by blast
  with a assms have r: "pipe_A e v sink s =
      (Returned (PDict [(''error'', PStr ''Error: 500 - server error'')]),
       emit_status_A e v sink ''error'' (''Error during RAG query: '' @ ''Error: 500 - server error'') True
         ((emit_status_A e v sink ''info'' ''Querying intelligent RAG server...'' False s)
            \<lparr>requests := requests s @ [r]\<rparr>))"
    by (simp add: pipe_A_def try_A_def Let_def str_int_500 split: prod.splits)
  show "fst (pipe_A e v sink s) = Returned (PDict [(''error'', PStr ''Error: 500 - server error'')])"
    by (simp add: r)
  show "body_messages (snd (pipe_A e v sink s)) = body_messages s"
    by (simp add: r)
  {
    assume k: "sink \<noteq> None \<and> enable_status_indicator v"
    then show "sent (snd (pipe_A e v sink s)) \<noteq> []"
      by (simp add: r emit_status_A_terminal)
    from k show "last (sent (snd (pipe_A e v sink s)))
              = PDict [(''type'', PStr ''status''),
                  (''data'', PDict [(''status'', PStr ''complete''),
                     (''level'', PStr ''error''),
                     (''description'',
                        PStr ''Error during RAG query: Error: 500 - server error''),
                     (''done'', PBool True)])]"
      by (simp add: r emit_status_A_terminal status_event_def)
  }
next
  assume a: "requests (snd (pipe_B e v sink s)) = requests s @ [r] \<and> requests_post e r = Inr resp"
  then obtain ms q ctx u where ms: "body_messages s = Some ms" "ms \<noteq> []"
      "map_of (last ms) ''content'' = Some q" "build_context (butlast ms) [] = Inr ctx"
      "urljoin e (server_url v) ''/api/query'' = Inr u" "r = request_B v q ctx u"
    using pipe_B_dispatched by blast
  with a assms have r: "pipe_B e v sink s =
      (Returned (PDict [(''error'', PStr ''Error during RAG query: Error: 500 - server error'')]),
       emit_status_B e v sink ''error'' ''Error during RAG query: Error: 500 - server error'' True
         ((emit_status_B e v sink ''info'' ''Processing query...'' False
            (emit_status_B e v sink ''info'' ''Calling Intelligent RAG Server...'' False s))
            \<lparr>requests := requests s @ [r]\<rparr>))"
    by (simp add: pipe_B_def try_B_def Let_def str_int_500 split: prod.splits)
  show "fst (pipe_B e v sink s)
                  = Returned (PDict [(''error'', PStr ''Error during RAG query: Error: 500 - server error'')])"
    by (simp add: r)
  show "body_messages (snd (pipe_B e v sink s)) = body_messages s"
    by (simp add: r)
  {
    assume k: "sink \<noteq> None \<and> enable_status_indicator v"
    then show "sent (snd (pipe_B e v sink s)) \<noteq> []"
      by (simp add: r emit_status_B_terminal)
    from k show "last (sent (snd (pipe_B e v sink s)))
              = PDict [(''type'', PStr ''status''),
                  (''data'', PDict [(''status'', PStr ''complete''),
                     (''level'', PStr ''error''),
                     (''description'',
                        PStr ''Error during RAG query: Error: 500 - server error''),
                     (''done'', PBool True)])]"
      by (simp add: r emit_status_B_terminal status_event_def)
  }
qed

text \<open>
  As the specification states it, the property fails in variant A: on one question
  answered with status 500 and body \<^verbatim>\<open>server error\<close> it returns the message without
  the prefix.
\<close>

theorem pipe_A_500_bare_message:
  "fst (pipe_A (service server_error) default_valves a_sink (fresh (Some [user_msg ''q''])))
     = Returned (PDict [(''error'', PStr ''Error: 500 - server error'')])
   \<and> fst (pipe_A (service server_error) default_valves a_sink (fresh (Some [user_msg ''q''])))
     \<noteq> Returned (PDict [(''error'', PStr ''Error during RAG query: Error: 500 - server error'')])"
  by (simp add: run_defs)

text \<open>
  The theorem at that input, for both variants, with a sink and notifications enabled:
  the values returned, the messages, and the whole list of notifications sent.
\<close>

theorem http_500_result_witness:
  "status_code server_error = 500 \<and> resp_text server_error = ''server error''
   \<and> a_sink \<noteq> None \<and> enable_status_indicator default_valves
   \<and> requests (snd (pipe_A (service server_error) default_valves a_sink (fresh (Some [user_msg ''q'']))))
       = requests (fresh (Some [user_msg ''q''])) @ [request_A default_valves (PStr ''q'')]
   \<and> requests_post (service server_error) (request_A default_valves (PStr ''q'')) = Inr server_error
   \<and> fst (pipe_A (service server_error) default_valves a_sink (fresh (Some [user_msg ''q''])))
       = Returned (PDict [(''error'', PStr ''Error: 500 - server error'')])
   \<and> body_messages (snd (pipe_A (service server_error) default_valves a_sink (fresh (Some [user_msg ''q'']))))
       = Some [user_msg ''q'']
   \<and> sent (snd (pipe_A (service server_error) default_valves a_sink (fresh (Some [user_msg ''q'']))))
       = [status_event ''info'' ''Querying intelligent RAG server...'' False,
          status_event ''error'' ''Error during RAG query: Error: 500 - server error'' True]
   \<and> last (sent (snd (pipe_A (service server_error) default_valves a_sink
                          (fresh (Some [user_msg ''q''])))))
       = PDict [(''type'', PStr ''status''),
           (''data'', PDict [(''status'', PStr ''complete''),
              (''level'', PStr ''error''),
              (''description'', PStr ''Error during RAG query: Error: 500 - server error''),
              (''done'', PBool True)])]
   \<and> requests (snd (pipe_B (service server_error) default_valves a_sink (fresh (Some [user_msg ''q'']))))
       = requests (fresh (Some [user_msg ''q'']))
         @ [request_B default_valves (PStr ''q'') [] ''http://localhost:3000/api/query'']
   \<and> requests_post (service server_error)
         (request_B default_valves (PStr ''q'') [] ''http://localhost:3000/api/query'') = Inr server_error
   \<and> fst (pipe_B (service server_error) default_valves a_sink (fresh (Some [user_msg ''q''])))
       = Returned (PDict [(''error'', PStr ''Error during RAG query: Error: 500 - server error'')])
   \<and> body_messages (snd (pipe_B (service server_error) default_valves a_sink (fresh (Some [user_msg ''q'']))))
       = Some [user_msg ''q'']
   \<and> last (sent (snd (pipe_B (service server_error) default_valves a_sink
                          (fresh (Some [user_msg ''q''])))))
       = PDict [(''type'', PStr ''status''),
           (''data'', PDict [(''status'', PStr ''complete''),
              (''level'', PStr ''error''),
              (''description'', PStr ''Error during RAG query: Error: 500 - server error''),
              (''done'', PBool True)])]"
proof -
  have h: "status_code server_error = 500" "resp_text server_error = ''server error''"
    by (simp_all add: server_error_def reply_def)
  have k: "a_sink \<noteq> None" "enable_status_indicator default_valves"
    by (simp_all add: a_sink_def default_valves_def)
  have dA: "requests (snd (pipe_A (service server_error) default_valves a_sink (fresh (Some [user_msg ''q'']))))
       = requests (fresh (Some [user_msg ''q''])) @ [request_A default_valves (PStr ''q'')]"
    by (simp add: run_defs)
  have dB: "requests (snd (pipe_B (service server_error) default_valves a_sink (fresh (Some [user_msg ''q'']))))
       = requests (fresh (Some [user_msg ''q'']))
         @ [request_B default_valves (PStr ''q'') [] ''http://localhost:3000/api/query'']"
    by (simp add: run_defs)
  have p: "requests_post (service server_error) r = Inr server_error" for r
    by (simp add: service_def)
  have m: "body_messages (fresh (Some [user_msg ''q''])) = Some [user_msg ''q'']"
    by (simp add: fresh_def)
  have allA: "sent (snd (pipe_A (service server_error) default_valves a_sink (fresh (Some [user_msg ''q'']))))
       = [status_event ''info'' ''Querying intelligent RAG server...'' False,
          status_event ''error'' ''Error during RAG query: Error: 500 - server error'' True]"
    by (simp add: run_defs)
  from http_500_result [OF h, where e = "service server_error" and v = default_valves
      and sink = a_sink and s = "fresh (Some [user_msg ''q''])"
      and r = "request_A default_valves (PStr ''q'')"]
    http_500_result [OF h, where e = "service server_error" and v = default_valves
      and sink = a_sink and s = "fresh (Some [user_msg ''q''])"
      and r = "request_B default_valves (PStr ''q'') [] ''http://localhost:3000/api/query''"]
    h k dA dB p m allA
  show ?thesis by simp
qed

section \<open>C4: a 200 response without an answer\<close>

text \<open>
  C4, as amended. For every invocation that receives a 200 response whose JSON object has
  no \<^verbatim>\<open>answer\<close> key: variant B treats it as a failure, returning the error result
  \<^verbatim>\<open>{"error": "Error during RAG query: 'answer'"}\<close>, leaving the messages unchanged and,
  with a sink and notifications enabled, sending the terminal error notification last.
  Variant A takes the empty string for the answer: it appends an assistant message with
  content \<^verbatim>\<open>""\<close> (after the system message, when the log is not empty) and returns
  \<^verbatim>\<open>""\<close>.
\<close>

theorem missing_answer:
  assumes "body_messages s = Some ms" and "status_code resp = 200"
    and "resp_json resp = Inr (PDict d)" and "map_of d ''answer'' = None"
  shows "(requests (snd (pipe_B e v sink s)) = requests s @ [r] \<and> requests_post e r = Inr resp
            \<longrightarrow> fst (pipe_B e v sink s)
                  = Returned (PDict [(''error'', PStr (''Error during RAG query: ''
                                                        @ [CHR 0x27] @ ''answer'' @ [CHR 0x27]))])
                \<and> body_messages (snd (pipe_B e v sink s)) = Some ms
                \<and> (sink \<noteq> None \<and> enable_status_indicator v
                     \<longrightarrow> sent (snd (pipe_B e v sink s)) \<noteq> []
                         \<and> last (sent (snd (pipe_B e v sink s)))
                             = status_event ''error'' (''Error during RAG query: ''
                                 @ [CHR 0x27] @ ''answer'' @ [CHR 0x27]) True))
       \<and> (requests (snd (pipe_A e v sink s)) = requests s @ [r] \<and> requests_post e r = Inr resp
            \<longrightarrow> fst (pipe_A e v sink s) = Returned (PStr [])
                \<and> body_messages (snd (pipe_A e v sink s))
                    = Some (ms
                        @ (if truthy (dict_get d ''log'' (PStr []))
                           then [[(''role'', PStr ''system''),
                                  (''content'', PStr (''Thinking process:\<newline>''
                                                      @ py_str (dict_get d ''log'' (PStr []))))]]
                           else [])
                        @ [[(''role'', PStr ''assistant''), (''content'', PStr [])]]))"
proof (intro conjI impI)
  assume a: "requests (snd (pipe_A e v sink s)) = requests s @ [r] \<and> requests_post e r = Inr resp"
  then obtain ms' q where "body_messages s = Some ms'" "ms' \<noteq> []"
      "map_of (last ms') ''content'' = Some q" "r = request_A v q"
    using pipe_A_dispatched by blast
  with a assms have r: "ms \<noteq> []" "map_of (last ms) ''content'' = Some q"
      "requests_post e (request_A v q) = Inr resp"
    by auto
  note run = pipe_A_success [OF assms(1) r assms(2,3), of sink]
  from assms(4) have dflt: "dict_get d ''answer'' (PStr []) = PStr []"
    by (simp add: dict_get_def)
  show "fst (pipe_A e v sink s) = Returned (PStr [])"
    by (simp add: run dflt)
  show "body_messages (snd (pipe_A e v sink s))
          = Some (ms
              @ (if truthy (dict_get d ''log'' (PStr []))
                 then [[(''role'', PStr ''system''),
                        (''content'', PStr (''Thinking process:\<newline>''
                                            @ py_str (dict_get d ''log'' (PStr []))))]]
                 else [])
              @ [[(''role'', PStr ''assistant''), (''content'', PStr [])]])"
    by (simp add: run dflt)
next
  assume a: "requests (snd (pipe_B e v sink s)) = requests s @ [r] \<and> requests_post e r = Inr resp"
  then obtain ms' q ctx u where "body_messages s = Some ms'" "ms' \<noteq> []"
      "map_of (last ms') ''content'' = Some q" "build_context (butlast ms') [] = Inr ctx"
      "urljoin e (server_url v) ''/api/query'' = Inr u" "r = request_B v q ctx u"
    using pipe_B_dispatched by blast
  with a assms have r: "ms \<noteq> []" "map_of (last ms) ''content'' = Some q"
      "build_context (butlast ms) [] = Inr ctx" "urljoin e (server_url v) ''/api/query'' = Inr u"
      "requests_post e (request_B v q ctx u) = Inr resp"
    by auto
  note run = pipe_B_caught [OF assms(1) r assms(2,3) answer_B_absent [OF assms(4)], of sink]
  show "fst (pipe_B e v sink s)
          = Returned (PDict [(''error'', PStr (''Error during RAG query: ''
                                                @ [CHR 0x27] @ ''answer'' @ [CHR 0x27]))])"
    by (simp add: run)
  show "body_messages (snd (pipe_B e v sink s)) = Some ms"
    by (simp add: run assms(1))
  {
    assume k: "sink \<noteq> None \<and> enable_status_indicator v"
    then show "sent (snd (pipe_B e v sink s)) \<noteq> []"
      by (simp add: run emit_status_B_terminal)
    from k show "last (sent (snd (pipe_B e v sink s)))
            = status_event ''error'' (''Error during RAG query: ''
                @ [CHR 0x27] @ ''answer'' @ [CHR 0x27]) True"
      by (simp add: run emit_status_B_terminal)
  }
qed

text \<open>
  As the specification states it, the property fails in variant A: answered with status 200 and the JSON object
  \<^verbatim>\<open>{}\<close>, it returns the empty string, appends it as the assistant message, and its
  notifications are the start and \<^verbatim>\<open>Complete\<close>, neither an error.
\<close>

theorem pipe_A_missing_answer_default:
  "fst (pipe_A (service empty_object) default_valves a_sink (fresh (Some [user_msg ''q''])))
     = Returned (PStr [])
   \<and> body_messages (snd (pipe_A (service empty_object) default_valves a_sink
                           (fresh (Some [user_msg ''q'']))))
     = Some [user_msg ''q'', [(''role'', PStr ''assistant''), (''content'', PStr [])]]
   \<and> sent (snd (pipe_A (service empty_object) default_valves a_sink (fresh (Some [user_msg ''q'']))))
     = [status_event ''info'' ''Querying intelligent RAG server...'' False,
        status_event ''info'' ''Complete'' True]"
  by (simp add: run_defs empty_object_def)

text \<open>The theorem at that input, for both variants.\<close>

theorem missing_answer_witness:
  "body_messages (fresh (Some [user_msg ''q''])) = Some [user_msg ''q'']
   \<and> status_code empty_object = 200 \<and> resp_json empty_object = Inr (PDict [])
   \<and> map_of ([] :: pydict) ''answer'' = None
   \<and> requests (snd (pipe_B (service empty_object) default_valves a_sink (fresh (Some [user_msg ''q'']))))
       = requests (fresh (Some [user_msg ''q'']))
         @ [request_B default_valves (PStr ''q'') [] ''http://localhost:3000/api/query'']
   \<and> requests_post (service empty_object)
         (request_B default_valves (PStr ''q'') [] ''http://localhost:3000/api/query'') = Inr empty_object
   \<and> a_sink \<noteq> None \<and> enable_status_indicator default_valves
   \<and> fst (pipe_B (service empty_object) default_valves a_sink (fresh (Some [user_msg ''q''])))
       = Returned (PDict [(''error'', PStr (''Error during RAG query: ''
                                             @ [CHR 0x27] @ ''answer'' @ [CHR 0x27]))])
   \<and> body_messages (snd (pipe_B (service empty_object) default_valves a_sink
                             (fresh (Some [user_msg ''q'']))))
       = Some [user_msg ''q'']
   \<and> last (sent (snd (pipe_B (service empty_object) default_valves a_sink
                          (fresh (Some [user_msg ''q''])))))
       = status_event ''error'' (''Error during RAG query: '' @ [CHR 0x27] @ ''answer'' @ [CHR 0x27]) True
   \<and> requests (snd (pipe_A (service empty_object) default_valves a_sink (fresh (Some [user_msg ''q'']))))
       = requests (fresh (Some [user_msg ''q''])) @ [request_A default_valves (PStr ''q'')]
   \<and> fst (pipe_A (service empty_object) default_valves a_sink (fresh (Some [user_msg ''q''])))
       = Returned (PStr [])"
proof -
  have m: "body_messages (fresh (Some [user_msg ''q''])) = Some [user_msg ''q'']"
    by (simp add: fresh_def)
  have h: "status_code empty_object = 200" "resp_json empty_object = Inr (PDict [])"
    "map_of ([] :: pydict) ''answer'' = None"
    by (simp_all add: empty_object_def reply_def)
  have dA: "requests (snd (pipe_A (service empty_object) default_valves a_sink (fresh (Some [user_msg ''q'']))))
       = requests (fresh (Some [user_msg ''q''])) @ [request_A default_valves (PStr ''q'')]"
    by (simp add: run_defs empty_object_def)
  have dB: "requests (snd (pipe_B (service empty_object) default_valves a_sink (fresh (Some [user_msg ''q'']))))
       = requests (fresh (Some [user_msg ''q'']))
         @ [request_B default_valves (PStr ''q'') [] ''http://localhost:3000/api/query'']"
    by (simp add: run_defs empty_object_def)
  have p: "requests_post (service empty_object) r = Inr empty_object" for r
    by (simp add: service_def)
  have k: "a_sink \<noteq> None" "enable_status_indicator default_valves"
    by (simp_all add: a_sink_def default_valves_def)
  from missing_answer [OF m h, of "service empty_object" default_valves a_sink
      "request_B default_valves (PStr ''q'') [] ''http://localhost:3000/api/query''"]
    missing_answer [OF m h, of "service empty_object" default_valves a_sink
      "request_A default_valves (PStr ''q'')"]
    m h dA dB p k
  show ?thesis by simp
qed

section \<open>C5: the last notification of a successful invocation\<close>

text \<open>
  C5, as amended. For every successful invocation (a 200 response with an answer) with a
  sink and notifications enabled, the last notification sent is a terminal informational
  one; its message is \<^verbatim>\<open>Complete\<close> in variant A and
  \<^verbatim>\<open>Response generated successfully\<close> in variant B.
\<close>

theorem success_last_event:
  assumes "status_code resp = 200" and "resp_json resp = Inr (PDict d)"
    and "map_of d ''answer'' = Some a" and "sink \<noteq> None" and "enable_status_indicator v"
  shows "(requests (snd (pipe_A e v sink s)) = requests s @ [r] \<and> requests_post e r = Inr resp
            \<longrightarrow> sent (snd (pipe_A e v sink s)) \<noteq> []
                \<and> last (sent (snd (pipe_A e v sink s))) = status_event ''info'' ''Complete'' True)
       \<and> (requests (snd (pipe_B e v sink s)) = requests s @ [r] \<and> requests_post e r = Inr resp
            \<longrightarrow> sent (snd (pipe_B e v sink s)) \<noteq> []
                \<and> last (sent (snd (pipe_B e v sink s)))
                    = status_event ''info'' ''Response generated successfully'' True)"
proof (intro conjI impI)
  assume a: "requests (snd (pipe_A e v sink s)) = requests s @ [r] \<and> requests_post e r = Inr resp"
  then obtain ms q where ms: "body_messages s = Some ms" "ms \<noteq> []"
      "map_of (last ms) ''content'' = Some q" "r = request_A v q"
    using pipe_A_dispatched by blast
  with a have "requests_post e (request_A v q) = Inr resp" by simp
  note run = pipe_A_success [OF ms(1-3) this assms(1,2), of sink]
  show "sent (snd (pipe_A e v sink s)) \<noteq> []"
    by (simp add: run emit_status_A_terminal assms)
  show "last (sent (snd (pipe_A e v sink s))) = status_event ''info'' ''Complete'' True"
    by (simp add: run emit_status_A_terminal assms)
next
  assume a: "requests (snd (pipe_B e v sink s)) = requests s @ [r] \<and> requests_post e r = Inr resp"
  then obtain ms q ctx u where ms: "body_messages s = Some ms" "ms \<noteq> []"
      "map_of (last ms) ''content'' = Some q" "build_context (butlast ms) [] = Inr ctx"
      "urljoin e (server_url v) ''/api/query'' = Inr u" "r = request_B v q ctx u"
    using pipe_B_dispatched by blast
  with a have p: "requests_post e (request_B v q ctx u) = Inr resp" by simp
  from answer_B_present [OF assms(3)] obtain x where x: "answer_B (PDict d) = Inr x" ..
  note run = pipe_B_success [OF ms(1-5) p assms(1,2) x, of sink]
  show "sent (snd (pipe_B e v sink s)) \<noteq> []"
    by (simp add: run emit_status_B_terminal assms)
  show "last (sent (snd (pipe_B e v sink s)))
          = status_event ''info'' ''Response generated successfully'' True"
    by (simp add: run emit_status_B_terminal assms)
qed

text \<open>
  As the specification states it, the property fails in variant B: on a successful invocation its last notification
  reads \<^verbatim>\<open>Response generated successfully\<close>, and no notification \<^verbatim>\<open>Complete\<close> is sent.
\<close>

theorem pipe_B_success_last_event:
  "last (sent (snd (pipe_B (service answer_with_log) default_valves a_sink
                      (fresh (Some [user_msg ''q''])))))
     = status_event ''info'' ''Response generated successfully'' True
   \<and> status_event ''info'' ''Complete'' True
       \<notin> set (sent (snd (pipe_B (service answer_with_log) default_valves a_sink
                           (fresh (Some [user_msg ''q''])))))"
  by (simp add: run_defs)

text \<open>The theorem at that input, for both variants.\<close>

theorem success_last_event_witness:
  "status_code answer_with_log = 200
   \<and> resp_json answer_with_log = Inr (PDict [(''answer'', PStr ''X''), (''log'', PStr ''Y'')])
   \<and> map_of [(''answer'', PStr ''X''), (''log'', PStr ''Y'')] ''answer'' = Some (PStr ''X'')
   \<and> a_sink \<noteq> None \<and> enable_status_indicator default_valves
   \<and> requests (snd (pipe_A (service answer_with_log) default_valves a_sink (fresh (Some [user_msg ''q'']))))
       = requests (fresh (Some [user_msg ''q''])) @ [request_A default_valves (PStr ''q'')]
   \<and> requests_post (service answer_with_log) (request_A default_valves (PStr ''q''))
       = Inr answer_with_log
   \<and> last (sent (snd (pipe_A (service answer_with_log) default_valves a_sink
                          (fresh (Some [user_msg ''q''])))))
       = status_event ''info'' ''Complete'' True
   \<and> requests (snd (pipe_B (service answer_with_log) default_valves a_sink (fresh (Some [user_msg ''q'']))))
       = requests (fresh (Some [user_msg ''q'']))
         @ [request_B default_valves (PStr ''q'') [] ''http://localhost:3000/api/query'']
   \<and> last (sent (snd (pipe_B (service answer_with_log) default_valves a_sink
                          (fresh (Some [user_msg ''q''])))))
       = status_event ''info'' ''Response generated successfully'' True"
proof -
  have h: "status_code answer_with_log = 200"
    "resp_json answer_with_log = Inr (PDict [(''answer'', PStr ''X''), (''log'', PStr ''Y'')])"
    "map_of [(''answer'', PStr ''X''), (''log'', PStr ''Y'')] ''answer'' = Some (PStr ''X'')"
    by (simp_all add: answer_with_log_def reply_def)
  have k: "a_sink \<noteq> None" "enable_status_indicator default_valves"
    by (simp_all add: a_sink_def default_valves_def)
  have dA: "requests (snd (pipe_A (service answer_with_log) default_valves a_sink (fresh (Some [user_msg ''q'']))))
       = requests (fresh (Some [user_msg ''q''])) @ [request_A default_valves (PStr ''q'')]"
    by (simp add: run_defs)
  have dB: "requests (snd (pipe_B (service answer_with_log) default_valves a_sink (fresh (Some [user_msg ''q'']))))
       = requests (fresh (Some [user_msg ''q'']))
         @ [request_B default_valves (PStr ''q'') [] ''http://localhost:3000/api/query'']"
    by (simp add: run_defs)
  have p: "requests_post (service answer_with_log) r = Inr answer_with_log" for r
    by (simp add: service_def)
  from success_last_event [OF h k, of "service answer_with_log"
      "fresh (Some [user_msg ''q''])" "request_A default_valves (PStr ''q'')"]
    success_last_event [OF h k, of "service answer_with_log"
      "fresh (Some [user_msg ''q''])"
      "request_B default_valves (PStr ''q'') [] ''http://localhost:3000/api/query''"]
    h k dA dB p
  show ?thesis by simp
qed

section \<open>C6: the context field of variant B\<close>

text \<open>
  C6, as amended. In variant B, the context field of the payload posted is the
  \<^verbatim>\<open>role: content\<close> lines, joined by newlines, of the messages before the last whose role
  is \<^verbatim>\<open>user\<close> or \<^verbatim>\<open>assistant\<close>; it is \<^verbatim>\<open>None\<close> when there is no such message, and so
  when there is no prior message at all.
\<close>

theorem payload_context:
  assumes "body_messages s = Some ms"
    and "requests (snd (pipe_B e v sink s)) = requests s @ [r]"
  shows "payload_field r ''context'' = Some (context_of (butlast ms))
         \<and> (butlast ms = [] \<longrightarrow> payload_field r ''context'' = Some PNone)"
proof -
  from assms(2) obtain ms' q ctx u where "body_messages s = Some ms'"
      "build_context (butlast ms') [] = Inr ctx" "r = request_B v q ctx u"
    using pipe_B_dispatched by blast
  with assms(1) have c: "build_context (butlast ms) [] = Inr ctx" and r: "r = request_B v q ctx u"
    by auto
  from build_context_lines [OF c] have "ctx = map context_line (filter chat_role (butlast ms))"
    by simp
  then have "payload_field r ''context'' = Some (context_of (butlast ms))"
    by (simp add: r request_B_def payload_field_def context_of_def Let_def)
  then show ?thesis by (auto simp: context_of_def)
qed

text \<open>
  As the specification states it, the property fails on a system message followed by the question: there is a
  prior message, yet the context posted is \<^verbatim>\<open>None\<close>, not the line \<^verbatim>\<open>system: s\<close>.
\<close>

theorem pipe_B_context_skips_system:
  "map (\<lambda>r. payload_field r ''context'')
       (requests (snd (pipe_B (service answer_with_log) default_valves a_sink
                         (fresh (Some [system_msg ''s'', user_msg ''q''])))))
     = [Some PNone]
   \<and> context_claimed (butlast [system_msg ''s'', user_msg ''q'']) = PStr ''system: s''"
  by (simp add: run_defs system_msg_def payload_field_def context_claimed_def context_line_def)

text \<open>The theorem on a user message, a system message and the question.\<close>

theorem payload_context_witness:
  "body_messages (fresh (Some [user_msg ''hi'', system_msg ''s'', user_msg ''q'']))
       = Some [user_msg ''hi'', system_msg ''s'', user_msg ''q'']
   \<and> requests (snd (pipe_B (service answer_with_log) default_valves a_sink
                        (fresh (Some [user_msg ''hi'', system_msg ''s'', user_msg ''q'']))))
       = requests (fresh (Some [user_msg ''hi'', system_msg ''s'', user_msg ''q'']))
         @ [request_B default_valves (PStr ''q'') [''user: hi''] ''http://localhost:3000/api/query'']
   \<and> payload_field (request_B default_valves (PStr ''q'') [''user: hi'']
                      ''http://localhost:3000/api/query'') ''context''
       = Some (context_of (butlast [user_msg ''hi'', system_msg ''s'', user_msg ''q'']))
   \<and> context_of (butlast [user_msg ''hi'', system_msg ''s'', user_msg ''q'']) = PStr ''user: hi''"
proof -
  have m: "body_messages (fresh (Some [user_msg ''hi'', system_msg ''s'', user_msg ''q'']))
       = Some [user_msg ''hi'', system_msg ''s'', user_msg ''q'']"
    by (simp add: fresh_def)
  have d: "requests (snd (pipe_B (service answer_with_log) default_valves a_sink
                        (fresh (Some [user_msg ''hi'', system_msg ''s'', user_msg ''q'']))))
       = requests (fresh (Some [user_msg ''hi'', system_msg ''s'', user_msg ''q'']))
         @ [request_B default_valves (PStr ''q'') [''user: hi''] ''http://localhost:3000/api/query'']"
    by (simp add: run_defs system_msg_def payload_field_def context_of_def context_line_def chat_role_def)
  have c: "context_of (butlast [user_msg ''hi'', system_msg ''s'', user_msg ''q'']) = PStr ''user: hi''"
    by (simp add: run_defs system_msg_def payload_field_def context_of_def context_line_def chat_role_def)
  from payload_context [OF m d] m d c show ?thesis by simp
qed

section \<open>C7: the throttled notifier\<close>

text \<open>
  C7. For every call of the throttled notifier, with \<open>now\<close> the clock reading the call
  makes: when notifications are disabled or no sink is supplied, nothing is sent and the
  stored timestamp is unchanged. Otherwise an event is sent exactly when
  \<open>now - last_emit_time \<ge> emit_interval\<close> or the done flag is set; when it is sent, it is
  the one event \<open>{type: status, data: {status, level, description, done}}\<close> with status
  \<open>complete\<close> for a done event and \<open>in_progress\<close> otherwise, and the timestamp becomes
  \<open>now\<close>; when it is not sent, the timestamp stays. This holds in both modules.
\<close>

theorem emit_status_contract:
  "\<forall>emit \<in> {emit_status_A, emit_status_B}.
     (let now = time_time e (clock_reads s);
          due = (now - last_emit_time s \<ge> emit_interval v \<or> terminal);
          event = PDict [(''type'', PStr ''status''),
            (''data'', PDict [(''status'', PStr (if terminal then ''complete'' else ''in_progress'')),
                              (''level'', PStr level),
                              (''description'', PStr message),
                              (''done'', PBool terminal)])];
          s' = emit e v sink level message terminal s
      in (\<not> enable_status_indicator v \<or> sink = None \<longrightarrow>
            sent s' = sent s \<and> last_emit_time s' = last_emit_time s) \<and>
         (enable_status_indicator v \<and> sink \<noteq> None \<and> due \<longrightarrow>
            sent s' = sent s @ [event] \<and> last_emit_time s' = now) \<and>
         (enable_status_indicator v \<and> sink \<noteq> None \<and> \<not> due \<longrightarrow>
            sent s' = sent s \<and> last_emit_time s' = last_emit_time s))"
  by (simp add: emit_status_A_def emit_status_B_def status_event_def Let_def)

text \<open>The theorem on a first, non-terminal notification of a fresh adapter.\<close>

theorem emit_status_contract_witness:
  "emit_status_A \<in> {emit_status_A, emit_status_B}
   \<and> enable_status_indicator default_valves \<and> a_sink \<noteq> None
   \<and> (time_time (service server_error) 0 - 0 \<ge> emit_interval default_valves \<or> False)
   \<and> sent (emit_status_A (service server_error) default_valves a_sink ''info'' ''working'' False
              (fresh None))
       = [PDict [(''type'', PStr ''status''),
            (''data'', PDict [(''status'', PStr ''in_progress''),
                              (''level'', PStr ''info''),
                              (''description'', PStr ''working''),
                              (''done'', PBool False)])]]
   \<and> last_emit_time (emit_status_A (service server_error) default_valves a_sink ''info''
         ''working'' False (fresh None)) = 100"
  using emit_status_contract [where e = "service server_error" and v = default_valves
      and sink = a_sink and level = "''info''" and message = "''working''" and terminal = False
      and s = "fresh None"]
  by (simp add: default_valves_def a_sink_def service_def fresh_def Let_def)

section \<open>C8: a 200 response with answer and log\<close>



section \<open>C9: the failure path leaves the messages alone\<close>

text \<open>
  C9. For every invocation that posts its request and then fails, because the post
  raises (a transport exception), because the status is not 200, or because
  \<^verbatim>\<open>response.json()\<close> raises, the message list of the chat turn is what it was: nothing
  is appended, in either variant. (An invocation posts a request only when its message
  list is not empty.)
\<close>

theorem failure_keeps_messages:
  "(requests (snd (pipe_A e v sink s)) = requests s @ [r]
      \<and> (case requests_post e r of Inl m \<Rightarrow> True
          | Inr resp \<Rightarrow> status_code resp \<noteq> 200 \<or> isl (resp_json resp))
      \<longrightarrow> body_messages (snd (pipe_A e v sink s)) = body_messages s)
   \<and> (requests (snd (pipe_B e v sink s)) = requests s @ [r]
      \<and> (case requests_post e r of Inl m \<Rightarrow> True
          | Inr resp \<Rightarrow> status_code resp \<noteq> 200 \<or> isl (resp_json resp))
      \<longrightarrow> body_messages (snd (pipe_B e v sink s)) = body_messages s)"
proof (intro conjI impI)
  assume a: "requests (snd (pipe_A e v sink s)) = requests s @ [r]
      \<and> (case requests_post e r of Inl m \<Rightarrow> True
          | Inr resp \<Rightarrow> status_code resp \<noteq> 200 \<or> isl (resp_json resp))"
  then obtain ms q where ms: "body_messages s = Some ms" "ms \<noteq> []"
      "map_of (last ms) ''content'' = Some q" "r = request_A v q"
    using pipe_A_dispatched by blast
  with a show "body_messages (snd (pipe_A e v sink s)) = body_messages s"
    by (auto simp: pipe_A_def try_A_def Let_def isl_def split: prod.splits sum.splits if_splits)
next
  assume a: "requests (snd (pipe_B e v sink s)) = requests s @ [r]
      \<and> (case requests_post e r of Inl m \<Rightarrow> True
          | Inr resp \<Rightarrow> status_code resp \<noteq> 200 \<or> isl (resp_json resp))"
  then obtain ms q ctx u where ms: "body_messages s = Some ms" "ms \<noteq> []"
      "map_of (last ms) ''content'' = Some q" "build_context (butlast ms) [] = Inr ctx"
      "urljoin e (server_url v) ''/api/query'' = Inr u" "r = request_B v q ctx u"
    using pipe_B_dispatched by blast
  with a show "body_messages (snd (pipe_B e v sink s)) = body_messages s"
    by (auto simp: pipe_B_def try_B_def Let_def isl_def split: prod.splits sum.splits if_splits)
qed

text \<open>The theorem on one question answered with status 500.\<close>

theorem failure_keeps_messages_witness:
  "requests (snd (pipe_A (service server_error) default_valves a_sink (fresh (Some [user_msg ''q'']))))
       = requests (fresh (Some [user_msg ''q''])) @ [request_A default_valves (PStr ''q'')]
   \<and> requests_post (service server_error) (request_A default_valves (PStr ''q'')) = Inr server_error
   \<and> status_code server_error \<noteq> 200
   \<and> body_messages (snd (pipe_A (service server_error) default_valves a_sink (fresh (Some [user_msg ''q'']))))
       = Some [user_msg ''q'']
   \<and> requests (snd (pipe_B (service server_error) default_valves a_sink (fresh (Some [user_msg ''q'']))))
       = requests (fresh (Some [user_msg ''q'']))
         @ [request_B default_valves (PStr ''q'') [] ''http://localhost:3000/api/query'']
   \<and> body_messages (snd (pipe_B (service server_error) default_valves a_sink (fresh (Some [user_msg ''q'']))))
       = Some [user_msg ''q'']"
proof -
  have h: "status_code server_error \<noteq> 200"
    by (simp add: server_error_def reply_def)
  have dA: "requests (snd (pipe_A (service server_error) default_valves a_sink (fresh (Some [user_msg ''q'']))))
       = requests (fresh (Some [user_msg ''q''])) @ [request_A default_valves (PStr ''q'')]"
    by (simp add: run_defs)
  have dB: "requests (snd (pipe_B (service server_error) default_valves a_sink (fresh (Some [user_msg ''q'']))))
       = requests (fresh (Some [user_msg ''q'']))
         @ [request_B default_valves (PStr ''q'') [] ''http://localhost:3000/api/query'']"
    by (simp add: run_defs)
  have p: "requests_post (service server_error) r = Inr server_error" for r
    by (simp add: service_def)
  have m: "body_messages (fresh (Some [user_msg ''q''])) = Some [user_msg ''q'']"
    by (simp add: fresh_def)
  from failure_keeps_messages [of "service server_error" default_valves a_sink
      "fresh (Some [user_msg ''q''])" "request_A default_valves (PStr ''q'')"]
    failure_keeps_messages [of "service server_error" default_valves a_sink
      "fresh (Some [user_msg ''q''])"
      "request_B default_valves (PStr ''q'') [] ''http://localhost:3000/api/query''"]
    h dA dB p m
  show ?thesis by simp
qed

section \<open>C10: one notifier in two modules\<close>

text \<open>
  C10. The notifier is the same in the two modules: for the same configuration, stored
  timestamp, clock, sink, level, message and done flag, \<^verbatim>\<open>emit_status\<close> of
  \<^verbatim>\<open>intelligent_rag_pipe.Pipe\<close> and of \<^verbatim>\<open>openwebui_pipe.Pipe\<close> reach the same state: the
  same events delivered (so the same decision and the same event) and the same
  timestamp.
\<close>

theorem emit_status_same:
  "emit_status_A e v sink level message done s = emit_status_B e v sink level message done s"
  by (simp add: emit_status_A_def emit_status_B_def)

end
